theory Spec2Isabelle
  imports Complex_Main
begin

section \<open>One-dimensional tensors over the reals\<close>

text \<open>
  The inputs of \<open>dpo_loss\<close> are one-dimensional tensors of log-probabilities. A tensor is
  the list of its elements. This first model takes the elements as real numbers: it is the
  exact arithmetic of the formula, without rounding. The second model, further down, takes
  them as binary32 numbers and rounds every operation.
\<close>

type_synonym tensor = "real list"

text \<open>
  The only failure of the tensor library that the function can meet: the two operands of an
  elementwise operation have sizes that cannot be broadcast together. The error carries the
  two sizes, as the library's message does.
\<close>

datatype error = SizeMismatch nat nat

text \<open>
  The binary operator \<open>a - b\<close> on two one-dimensional tensors. Operands of the same size are
  subtracted element by element. The library broadcasts a dimension of size one: a
  one-element operand is subtracted from (or subtracts) every element of the other operand.
  Any other pair of sizes raises.
\<close>

definition tensor_sub :: "tensor \<Rightarrow> tensor \<Rightarrow> error + tensor" where
  "tensor_sub a b =
     (if length a = length b then Inr (map2 (-) a b)
      else if length a = 1 then Inr (map (\<lambda>y. hd a - y) b)
      else if length b = 1 then Inr (map (\<lambda>x. x - hd b) a)
      else Inl (SizeMismatch (length a) (length b)))"

text \<open>The product \<open>beta * t\<close> of a Python scalar and a tensor.\<close>

definition scalar_mul :: "real \<Rightarrow> tensor \<Rightarrow> tensor" where
  "scalar_mul beta t = map (\<lambda>x. beta * x) t"

text \<open>The unary minus \<open>-t\<close> of a tensor.\<close>

definition tensor_neg :: "tensor \<Rightarrow> tensor" where
  "tensor_neg t = map uminus t"

text \<open>
  \<open>t.detach()\<close> returns a tensor with the same elements, cut from the gradient graph; on
  values it is the identity.
\<close>

definition detach :: "tensor \<Rightarrow> tensor" where
  "detach t = t"

text \<open>
  Modelled from the spec: \<open>F.logsigmoid\<close> is a function of the tensor library, not of this
  repository. It is taken in the numerically stable form that step 4 of the contract names,
  \<open>log(sigmoid(x)) = -(max(-x,0) + log(1+exp(-|x|)))\<close>, which is
  \<open>min(x,0) - log(1+exp(-|x|))\<close>, applied to every element.
\<close>

definition logsigmoid1 :: "real \<Rightarrow> real" where
  "logsigmoid1 x = min x 0 - ln (1 + exp (- \<bar>x\<bar>))"

definition logsigmoid :: "tensor \<Rightarrow> tensor" where
  "logsigmoid t = map logsigmoid1 t"

section \<open>The loss function\<close>

text \<open>
  \<open>dpo_loss\<close> of \<open>src/dpo_loss.py\<close>, statement by statement. The three subtractions can
  raise; an error leaves the function at once, so each is a branch that returns \<open>Inl\<close>.
  The result is the triple \<open>(losses, chosen_rewards, rejected_rewards)\<close>.
\<close>

definition dpo_loss ::
  "tensor \<Rightarrow> tensor \<Rightarrow> tensor \<Rightarrow> tensor \<Rightarrow> real \<Rightarrow> error + (tensor \<times> tensor \<times> tensor)" where
  "dpo_loss policy_chosen_logps policy_rejected_logps ref_chosen_logps ref_rejected_logps beta =
     (case tensor_sub policy_chosen_logps ref_chosen_logps of
        Inl e \<Rightarrow> Inl e
      | Inr chosen_logratios \<Rightarrow>
     (case tensor_sub policy_rejected_logps ref_rejected_logps of
        Inl e \<Rightarrow> Inl e
      | Inr rejected_logratios \<Rightarrow>
     (case tensor_sub chosen_logratios rejected_logratios of
        Inl e \<Rightarrow> Inl e
      | Inr d \<Rightarrow>
          let logits = scalar_mul beta d;
              losses = tensor_neg (logsigmoid logits);
              chosen_rewards = scalar_mul beta (detach chosen_logratios);
              rejected_rewards = scalar_mul beta (detach rejected_logratios)
          in Inr (losses, chosen_rewards, rejected_rewards))))"

text \<open>The default value of the parameter \<open>beta\<close>.\<close>

definition default_beta :: real where
  "default_beta = 1 / 10"

section \<open>The quantities of the contract\<close>

text \<open>The logistic function, as the contract writes it.\<close>

definition sigmoid :: "real \<Rightarrow> real" where
  "sigmoid x = 1 / (1 + exp (- x))"

text \<open>
  The logit of the contract at one index: \<open>beta\<close> times the difference of the chosen and the
  rejected log-ratio.
\<close>

definition logit_at ::
  "tensor \<Rightarrow> tensor \<Rightarrow> tensor \<Rightarrow> tensor \<Rightarrow> real \<Rightarrow> nat \<Rightarrow> real" where
  "logit_at pc pr rc rr beta i = beta * ((pc ! i - rc ! i) - (pr ! i - rr ! i))"

text \<open>
  The three result tensors that the contract prescribes for inputs of one common size:
  index by index, in the order of the inputs.
\<close>

definition spec_losses :: "tensor \<Rightarrow> tensor \<Rightarrow> tensor \<Rightarrow> tensor \<Rightarrow> real \<Rightarrow> tensor" where
  "spec_losses pc pr rc rr beta =
     map (\<lambda>i. - ln (sigmoid (logit_at pc pr rc rr beta i))) [0 ..< length pc]"

definition spec_rewards :: "tensor \<Rightarrow> tensor \<Rightarrow> real \<Rightarrow> tensor" where
  "spec_rewards p r beta = map (\<lambda>i. beta * (p ! i - r ! i)) [0 ..< length p]"

section \<open>Sizes that cannot be broadcast\<close>



section \<open>Binary32 numbers\<close>

text \<open>
  The tensors that the source file builds hold IEEE binary32 numbers, the default element
  type of the library. A binary32 value is a finite number, an infinity or a NaN. A finite
  value is carried as the real number it denotes, so the two zeros are one value.
\<close>

datatype f32 = Finite real | PosInf | NegInf | NaN

text \<open>The nearest integer, a tie going to the even one.\<close>

definition rne :: "real \<Rightarrow> int" where
  "rne q = (let f = \<lfloor>q\<rfloor>; r = q - of_int f in
             if r < 1/2 then f else if 1/2 < r then f + 1 else if even f then f else f + 1)"

text \<open>
  The binary exponent of a nonzero number, not below the least exponent \<open>-126\<close> of a normal
  number, and the distance of neighbouring binary32 numbers at that exponent: the significand
  has 24 bits.
\<close>

definition exponent32 :: "real \<Rightarrow> int" where
  "exponent32 x = max \<lfloor>log 2 \<bar>x\<bar>\<rfloor> (- 126)"

definition ulp32 :: "real \<Rightarrow> real" where
  "ulp32 x = 2 powr of_int (exponent32 x - 23)"

text \<open>Rounding to nearest, ties to even, before the range is checked.\<close>

definition quantize32 :: "real \<Rightarrow> real" where
  "quantize32 x = (if x = 0 then 0 else of_int (rne (x / ulp32 x)) * ulp32 x)"

text \<open>The largest finite binary32 number, \<open>(2^24 - 1) * 2^104\<close>.\<close>

definition max32 :: real where
  "max32 = (2 ^ 24 - 1) * 2 ^ 104"

text \<open>The binary32 result of an operation whose exact result is \<open>x\<close>; it overflows to an infinity.\<close>

definition round32 :: "real \<Rightarrow> f32" where
  "round32 x = (let y = quantize32 x in
                 if max32 < y then PosInf else if y < - max32 then NegInf else Finite y)"

text \<open>
  The operations that \<open>dpo_loss\<close> and the log-sigmoid use. On finite operands each is the
  exact operation followed by one rounding; negation, absolute value and minimum are exact.
  The infinities and NaN follow IEEE 754. The exponential and \<open>log1p\<close>, the logarithm of one
  plus the argument, are each one operation and are taken as correctly rounded.
\<close>

fun fneg :: "f32 \<Rightarrow> f32" where
  "fneg (Finite x) = Finite (- x)"
| "fneg PosInf = NegInf"
| "fneg NegInf = PosInf"
| "fneg NaN = NaN"

fun fabs :: "f32 \<Rightarrow> f32" where
  "fabs (Finite x) = Finite \<bar>x\<bar>"
| "fabs PosInf = PosInf"
| "fabs NegInf = PosInf"
| "fabs NaN = NaN"

fun fadd :: "f32 \<Rightarrow> f32 \<Rightarrow> f32" where
  "fadd (Finite x) (Finite y) = round32 (x + y)"
| "fadd NaN b = NaN"
| "fadd a NaN = NaN"
| "fadd PosInf NegInf = NaN"
| "fadd NegInf PosInf = NaN"
| "fadd PosInf b = PosInf"
| "fadd a PosInf = PosInf"
| "fadd NegInf b = NegInf"
| "fadd a NegInf = NegInf"

fun fsub :: "f32 \<Rightarrow> f32 \<Rightarrow> f32" where
  "fsub (Finite x) (Finite y) = round32 (x - y)"
| "fsub NaN b = NaN"
| "fsub a NaN = NaN"
| "fsub PosInf PosInf = NaN"
| "fsub NegInf NegInf = NaN"
| "fsub PosInf b = PosInf"
| "fsub NegInf b = NegInf"
| "fsub a PosInf = NegInf"
| "fsub a NegInf = PosInf"

fun fmul :: "f32 \<Rightarrow> f32 \<Rightarrow> f32" where
  "fmul (Finite x) (Finite y) = round32 (x * y)"
| "fmul NaN b = NaN"
| "fmul a NaN = NaN"
| "fmul (Finite x) PosInf = (if x = 0 then NaN else if 0 < x then PosInf else NegInf)"
| "fmul (Finite x) NegInf = (if x = 0 then NaN else if 0 < x then NegInf else PosInf)"
| "fmul PosInf (Finite y) = (if y = 0 then NaN else if 0 < y then PosInf else NegInf)"
| "fmul NegInf (Finite y) = (if y = 0 then NaN else if 0 < y then NegInf else PosInf)"
| "fmul PosInf PosInf = PosInf"
| "fmul PosInf NegInf = NegInf"
| "fmul NegInf PosInf = NegInf"
| "fmul NegInf NegInf = PosInf"

fun fmin :: "f32 \<Rightarrow> f32 \<Rightarrow> f32" where
  "fmin (Finite x) (Finite y) = Finite (min x y)"
| "fmin NaN b = NaN"
| "fmin a NaN = NaN"
| "fmin NegInf b = NegInf"
| "fmin a NegInf = NegInf"
| "fmin PosInf b = b"
| "fmin a PosInf = a"

fun fexp :: "f32 \<Rightarrow> f32" where
  "fexp (Finite x) = round32 (exp x)"
| "fexp PosInf = PosInf"
| "fexp NegInf = Finite 0"
| "fexp NaN = NaN"

fun flog1p :: "f32 \<Rightarrow> f32" where
  "flog1p (Finite x) =
     (if x < - 1 then NaN else if x = - 1 then NegInf else round32 (ln (1 + x)))"
| "flog1p PosInf = PosInf"
| "flog1p NegInf = NaN"
| "flog1p NaN = NaN"

section \<open>The loss function on binary32 tensors\<close>

text \<open>
  The tensor operations again, with the same sizes and the same broadcasting, on binary32
  elements. The Python scalar \<open>beta\<close> is converted to the element type of the tensor before
  the multiplication.
\<close>

type_synonym tensor32 = "f32 list"

definition tensor_sub32 :: "tensor32 \<Rightarrow> tensor32 \<Rightarrow> error + tensor32" where
  "tensor_sub32 a b =
     (if length a = length b then Inr (map2 fsub a b)
      else if length a = 1 then Inr (map (\<lambda>y. fsub (hd a) y) b)
      else if length b = 1 then Inr (map (\<lambda>x. fsub x (hd b)) a)
      else Inl (SizeMismatch (length a) (length b)))"

definition scalar_mul32 :: "real \<Rightarrow> tensor32 \<Rightarrow> tensor32" where
  "scalar_mul32 beta t = map (\<lambda>x. fmul (round32 beta) x) t"

definition tensor_neg32 :: "tensor32 \<Rightarrow> tensor32" where
  "tensor_neg32 t = map fneg t"

definition detach32 :: "tensor32 \<Rightarrow> tensor32" where
  "detach32 t = t"

text \<open>
  Modelled from the spec: \<open>F.logsigmoid\<close> is a function of the tensor library, not of this
  repository. As in the exact model it is the stable form of step 4 of the contract,
  \<open>min(x,0) - log(1+exp(-|x|))\<close>, here with every operation in binary32 and the logarithm
  of \<open>1+z\<close> evaluated as \<open>log1p(z)\<close>.
\<close>

definition logsigmoid1_32 :: "f32 \<Rightarrow> f32" where
  "logsigmoid1_32 x = fsub (fmin x (Finite 0)) (flog1p (fexp (fneg (fabs x))))"

definition logsigmoid32 :: "tensor32 \<Rightarrow> tensor32" where
  "logsigmoid32 t = map logsigmoid1_32 t"

text \<open>
  \<open>dpo_loss\<close> of \<open>src/dpo_loss.py\<close> on binary32 tensors, statement by statement as in the
  exact model.
\<close>

definition dpo_loss32 ::
  "tensor32 \<Rightarrow> tensor32 \<Rightarrow> tensor32 \<Rightarrow> tensor32 \<Rightarrow> real \<Rightarrow>
     error + (tensor32 \<times> tensor32 \<times> tensor32)" where
  "dpo_loss32 policy_chosen_logps policy_rejected_logps ref_chosen_logps ref_rejected_logps beta =
     (case tensor_sub32 policy_chosen_logps ref_chosen_logps of
        Inl e \<Rightarrow> Inl e
      | Inr chosen_logratios \<Rightarrow>
     (case tensor_sub32 policy_rejected_logps ref_rejected_logps of
        Inl e \<Rightarrow> Inl e
      | Inr rejected_logratios \<Rightarrow>
     (case tensor_sub32 chosen_logratios rejected_logratios of
        Inl e \<Rightarrow> Inl e
      | Inr d \<Rightarrow>
          let logits = scalar_mul32 beta d;
              losses = tensor_neg32 (logsigmoid32 logits);
              chosen_rewards = scalar_mul32 beta (detach32 chosen_logratios);
              rejected_rewards = scalar_mul32 beta (detach32 rejected_logratios)
          in Inr (losses, chosen_rewards, rejected_rewards))))"

text \<open>
  The local variable \<open>logits\<close> of the call (lines 25 to 30 of the source), which is not among
  the results.
\<close>

definition logits32 ::
  "tensor32 \<Rightarrow> tensor32 \<Rightarrow> tensor32 \<Rightarrow> tensor32 \<Rightarrow> real \<Rightarrow> error + tensor32" where
  "logits32 policy_chosen_logps policy_rejected_logps ref_chosen_logps ref_rejected_logps beta =
     (case tensor_sub32 policy_chosen_logps ref_chosen_logps of
        Inl e \<Rightarrow> Inl e
      | Inr chosen_logratios \<Rightarrow>
     (case tensor_sub32 policy_rejected_logps ref_rejected_logps of
        Inl e \<Rightarrow> Inl e
      | Inr rejected_logratios \<Rightarrow>
     (case tensor_sub32 chosen_logratios rejected_logratios of
        Inl e \<Rightarrow> Inl e
      | Inr d \<Rightarrow> Inr (scalar_mul32 beta d))))"

section \<open>Elementwise arithmetic on tensors of one size\<close>

lemma tensor_sub_same_size:
  "length a = length b \<Longrightarrow> tensor_sub a b = Inr (map2 (-) a b)"
  by (simp add: tensor_sub_def)

lemma dpo_loss_same_size:
  assumes "length pr = length pc" "length rc = length pc" "length rr = length pc"
  shows "dpo_loss pc pr rc rr beta =
           Inr (tensor_neg (logsigmoid (scalar_mul beta (map2 (-) (map2 (-) pc rc) (map2 (-) pr rr)))),
                scalar_mul beta (map2 (-) pc rc),
                scalar_mul beta (map2 (-) pr rr))"
  using assms by (simp add: dpo_loss_def tensor_sub_def detach_def Let_def)

section \<open>The stable log-sigmoid\<close>

lemma sigmoid_pos: "0 < sigmoid x"
  by (simp add: sigmoid_def add_pos_pos)

lemma sigmoid_less_one: "sigmoid x < 1"
  by (simp add: sigmoid_def add_pos_pos)

lemma ln_sigmoid: "ln (sigmoid x) = - ln (1 + exp (- x))"
proof -
  have "sigmoid x = inverse (1 + exp (- x))"
    by (simp add: sigmoid_def inverse_eq_divide)
  moreover have "0 < 1 + exp (- x)"
    by (simp add: add_pos_pos)
  ultimately show ?thesis
    by (simp add: ln_inverse)
qed

lemma ln_one_plus_exp_minus: "ln (1 + exp (- x)) = ln (1 + exp x) - (x :: real)"
proof -
  have pos: "0 < 1 + exp x"
    by (simp add: add_pos_pos)
  have "1 + exp (- x) = (1 + exp x) * exp (- x)"
    by (simp add: algebra_simps exp_minus_inverse)
  then have "ln (1 + exp (- x)) = ln (1 + exp x) + ln (exp (- x))"
    using pos by (simp add: ln_mult)
  then show ?thesis
    by simp
qed

lemma logsigmoid1_is_ln_sigmoid: "logsigmoid1 x = ln (sigmoid x)"
proof (cases "0 \<le> x")
  case True
  then show ?thesis
    by (simp add: logsigmoid1_def ln_sigmoid min_def)
next
  case False
  then show ?thesis
    by (simp add: logsigmoid1_def ln_sigmoid min_def ln_one_plus_exp_minus)
qed

lemma ln_one_plus_exp_pos: "0 < ln (1 + exp (- x :: real))"
  by (rule ln_gt_zero) simp

lemma neg_logsigmoid1: "- logsigmoid1 x = ln (1 + exp (- x))"
  by (simp add: logsigmoid1_is_ln_sigmoid ln_sigmoid)



lemma neg_logsigmoid1_strict_antimono:
  assumes "x < y"
  shows "- logsigmoid1 y < - logsigmoid1 x"
proof -
  from assms have "exp (- y) < exp (- x)"
    by simp
  then have "1 + exp (- y) < 1 + exp (- x)"
    by simp
  moreover have "0 < 1 + exp (- y)" and "0 < 1 + exp (- x)"
    by (simp_all add: add_pos_pos)
  ultimately have "ln (1 + exp (- y)) < ln (1 + exp (- x))"
    by (simp only: ln_less_cancel_iff)
  then show ?thesis
    by (simp only: neg_logsigmoid1)
qed

text \<open>
  In exact arithmetic the loss at the logit \<open>x\<close> exceeds \<open>-x\<close> by \<open>log(1+exp(x))\<close>, which is at
  most \<open>exp(x)\<close>: at the logit \<open>-100\<close> the loss lies between \<open>100\<close> and \<open>100 + exp(-100)\<close>.
\<close>

lemma neg_logsigmoid1_near_linear:
  "- x < - logsigmoid1 x \<and> - logsigmoid1 x \<le> - x + exp x"
proof -
  have "0 < ln (1 + exp x)"
    using ln_one_plus_exp_pos [of "- x"] by simp
  moreover have "ln (1 + exp x) \<le> exp x"
    by (rule ln_add_one_self_le_self) simp
  ultimately show ?thesis
    by (simp add: neg_logsigmoid1 ln_one_plus_exp_minus)
qed

lemma neg_logsigmoid1_at_minus_100:
  "100 < - logsigmoid1 (- 100) \<and> - logsigmoid1 (- 100) \<le> 100 + exp (- 100)"
  using neg_logsigmoid1_near_linear [of "- 100"] by simp

section \<open>The results on inputs of one size\<close>

lemma losses_nth:
  assumes "length pr = length pc" "length rc = length pc" "length rr = length pc"
    and "i < length pc"
  shows "tensor_neg (logsigmoid (scalar_mul beta (map2 (-) (map2 (-) pc rc) (map2 (-) pr rr)))) ! i
           = - logsigmoid1 (logit_at pc pr rc rr beta i)"
  using assms by (simp add: tensor_neg_def logsigmoid_def scalar_mul_def logit_at_def)

lemma rewards_nth:
  assumes "length r = length p" "i < length p"
  shows "scalar_mul beta (map2 (-) p r) ! i = beta * (p ! i - r ! i)"
  using assms by (simp add: scalar_mul_def)

lemma losses_length:
  assumes "length pr = length pc" "length rc = length pc" "length rr = length pc"
  shows "length (tensor_neg (logsigmoid (scalar_mul beta (map2 (-) (map2 (-) pc rc) (map2 (-) pr rr)))))
           = length pc"
  using assms by (simp add: tensor_neg_def logsigmoid_def scalar_mul_def)

lemma rewards_length:
  assumes "length r = length p"
  shows "length (scalar_mul beta (map2 (-) p r)) = length p"
  using assms by (simp add: scalar_mul_def)

lemma losses_are_spec_losses:
  assumes "length pr = length pc" "length rc = length pc" "length rr = length pc"
  shows "tensor_neg (logsigmoid (scalar_mul beta (map2 (-) (map2 (-) pc rc) (map2 (-) pr rr))))
           = spec_losses pc pr rc rr beta"
proof (rule nth_equalityI)
  show "length (tensor_neg (logsigmoid (scalar_mul beta (map2 (-) (map2 (-) pc rc) (map2 (-) pr rr)))))
          = length (spec_losses pc pr rc rr beta)"
    using assms by (simp add: losses_length spec_losses_def)
next
  fix i
  assume "i < length (tensor_neg (logsigmoid (scalar_mul beta (map2 (-) (map2 (-) pc rc) (map2 (-) pr rr)))))"
  with assms have i: "i < length pc"
    by (simp add: losses_length)
  have "spec_losses pc pr rc rr beta ! i = - ln (sigmoid (logit_at pc pr rc rr beta i))"
    using i by (simp add: spec_losses_def)
  then show "tensor_neg (logsigmoid (scalar_mul beta (map2 (-) (map2 (-) pc rc) (map2 (-) pr rr)))) ! i
               = spec_losses pc pr rc rr beta ! i"
    using assms i by (simp add: losses_nth logsigmoid1_is_ln_sigmoid)
qed

lemma rewards_are_spec_rewards:
  assumes "length r = length p"
  shows "scalar_mul beta (map2 (-) p r) = spec_rewards p r beta"
  using assms by (intro nth_equalityI) (simp_all add: scalar_mul_def spec_rewards_def)

text \<open>
  The demonstration of the source file: two examples whose chosen and rejected log-ratios
  are both \<open>0.1\<close>, with the default \<open>beta\<close>.
\<close>

lemma dpo_loss_demonstration:
  "dpo_loss [-1, -1/2] [-2, -3/2] [-11/10, -3/5] [-21/10, -8/5] default_beta
     = Inr ([ln 2, ln 2], [1/100, 1/100], [1/100, 1/100])"
  by (simp add: dpo_loss_def tensor_sub_def scalar_mul_def tensor_neg_def logsigmoid_def
        logsigmoid1_def detach_def default_beta_def)

section \<open>The per-index formula of the loss\<close>

text \<open>
  Claim C1. For four input tensors of one common size and any \<open>beta\<close>, \<open>dpo_loss\<close> returns,
  and at every index \<open>i\<close> its loss is
  \<open>-log(sigmoid(beta * ((policy_chosen_logps[i] - ref_chosen_logps[i]) -
  (policy_rejected_logps[i] - ref_rejected_logps[i]))))\<close>: the stable log-sigmoid that the
  code evaluates is the logarithm of the logistic function.
\<close>

theorem dpo_loss_is_neg_log_sigmoid:
  assumes "length pr = length pc" "length rc = length pc" "length rr = length pc"
    and "i < length pc"
  shows "\<exists>losses chosen_rewards rejected_rewards.
           dpo_loss pc pr rc rr beta = Inr (losses, chosen_rewards, rejected_rewards) \<and>
           losses ! i = - ln (sigmoid (beta * ((pc ! i - rc ! i) - (pr ! i - rr ! i))))"
proof -
  have "tensor_neg (logsigmoid (scalar_mul beta (map2 (-) (map2 (-) pc rc) (map2 (-) pr rr)))) ! i
          = - ln (sigmoid (beta * ((pc ! i - rc ! i) - (pr ! i - rr ! i))))"
    using assms by (simp add: losses_nth logsigmoid1_is_ln_sigmoid logit_at_def)
  then show ?thesis
    using assms by (simp add: dpo_loss_same_size)
qed

theorem dpo_loss_is_neg_log_sigmoid_witness:
  "\<exists>losses chosen_rewards rejected_rewards.
     dpo_loss [-1, -1/2] [-2, -3/2] [-11/10, -3/5] [-21/10, -8/5] (1/10)
       = Inr (losses, chosen_rewards, rejected_rewards) \<and>
     losses ! 1 = - ln (sigmoid (1/10 * ((-1/2 - (-3/5)) - (-3/2 - (-8/5)))))"
  using dpo_loss_is_neg_log_sigmoid
          [of "[-2, -3/2]" "[-1, -1/2]" "[-11/10, -3/5]" "[-21/10, -8/5]" 1 "1/10"]
  by simp

section \<open>The implicit rewards\<close>

text \<open>
  Claim C3. For inputs of one common size and every index \<open>i\<close>, \<open>chosen_rewards[i]\<close> is
  \<open>beta * (policy_chosen_logps[i] - ref_chosen_logps[i])\<close> and \<open>rejected_rewards[i]\<close> is
  \<open>beta * (policy_rejected_logps[i] - ref_rejected_logps[i])\<close>.
\<close>

theorem dpo_loss_rewards:
  assumes "length pr = length pc" "length rc = length pc" "length rr = length pc"
    and "i < length pc"
  shows "\<exists>losses chosen_rewards rejected_rewards.
           dpo_loss pc pr rc rr beta = Inr (losses, chosen_rewards, rejected_rewards) \<and>
           chosen_rewards ! i = beta * (pc ! i - rc ! i) \<and>
           rejected_rewards ! i = beta * (pr ! i - rr ! i)"
proof -
  have "scalar_mul beta (map2 (-) pc rc) ! i = beta * (pc ! i - rc ! i)"
    using assms by (simp add: rewards_nth)
  moreover have "scalar_mul beta (map2 (-) pr rr) ! i = beta * (pr ! i - rr ! i)"
    using assms by (simp add: rewards_nth)
  ultimately show ?thesis
    using assms by (simp add: dpo_loss_same_size)
qed

theorem dpo_loss_rewards_witness:
  "\<exists>losses chosen_rewards rejected_rewards.
     dpo_loss [-1, -1/2] [-2, -3/2] [-11/10, -3/5] [-21/10, -8/5] (1/10)
       = Inr (losses, chosen_rewards, rejected_rewards) \<and>
     chosen_rewards ! 0 = 1/10 * (-1 - (-11/10)) \<and>
     rejected_rewards ! 0 = 1/10 * (-2 - (-21/10))"
  using dpo_loss_rewards
          [of "[-2, -3/2]" "[-1, -1/2]" "[-11/10, -3/5]" "[-21/10, -8/5]" 0 "1/10"]
  by simp

section \<open>Sign, symmetry and monotonicity of the loss\<close>





text \<open>
  Claim C7, amended. In exact real arithmetic, at every index the loss is strictly decreasing
  in the logit \<open>beta * (chosen_logratio[i] - rejected_logratio[i])\<close>: of two inputs, each of
  one common size, the one with the strictly larger logit at \<open>i\<close> has the strictly smaller
  loss at \<open>i\<close>. The claim as the specification states it, for the tensors of the program,
  is refuted in the section on binary32 results.
\<close>

theorem dpo_loss_strictly_decreasing:
  assumes "length pr = length pc" "length rc = length pc" "length rr = length pc"
    and "length pr' = length pc'" "length rc' = length pc'" "length rr' = length pc'"
    and "i < length pc" "i < length pc'"
    and "beta * ((pc ! i - rc ! i) - (pr ! i - rr ! i))
           < beta' * ((pc' ! i - rc' ! i) - (pr' ! i - rr' ! i))"
  shows "\<exists>losses chosen_rewards rejected_rewards losses' chosen_rewards' rejected_rewards'.
           dpo_loss pc pr rc rr beta = Inr (losses, chosen_rewards, rejected_rewards) \<and>
           dpo_loss pc' pr' rc' rr' beta' = Inr (losses', chosen_rewards', rejected_rewards') \<and>
           losses' ! i < losses ! i"
proof -
  from assms(9) have "logit_at pc pr rc rr beta i < logit_at pc' pr' rc' rr' beta' i"
    by (simp only: logit_at_def)
  then have "- logsigmoid1 (logit_at pc' pr' rc' rr' beta' i)
               < - logsigmoid1 (logit_at pc pr rc rr beta i)"
    by (rule neg_logsigmoid1_strict_antimono)
  then have "tensor_neg (logsigmoid (scalar_mul beta' (map2 (-) (map2 (-) pc' rc') (map2 (-) pr' rr')))) ! i
               < tensor_neg (logsigmoid (scalar_mul beta (map2 (-) (map2 (-) pc rc) (map2 (-) pr rr)))) ! i"
    using assms(1-8) by (simp only: losses_nth)
  then show ?thesis
    using assms(1-6) by (simp add: dpo_loss_same_size)
qed

theorem dpo_loss_strictly_decreasing_witness:
  "\<exists>losses chosen_rewards rejected_rewards losses' chosen_rewards' rejected_rewards'.
     dpo_loss [-1, -1/2] [-2, -3/2] [-11/10, -3/5] [-21/10, -8/5] (1/10)
       = Inr (losses, chosen_rewards, rejected_rewards) \<and>
     dpo_loss [-1, -1/2] [-2, -2] [-11/10, -3/5] [-21/10, -8/5] (1/10)
       = Inr (losses', chosen_rewards', rejected_rewards') \<and>
     losses' ! 1 < losses ! 1"
  using dpo_loss_strictly_decreasing
          [of "[-2, -3/2]" "[-1, -1/2]" "[-11/10, -3/5]" "[-21/10, -8/5]"
              "[-2, -2]" "[-1, -1/2]" "[-11/10, -3/5]" "[-21/10, -8/5]" 1 "1/10" "1/10"]
  by simp

section \<open>The shape of the result\<close>

text \<open>
  Claim C8. For four input tensors of one common size \<open>N\<close>, the empty size included,
  \<open>dpo_loss\<close> returns exactly three tensors, the losses, the chosen rewards and the rejected
  rewards, each of size \<open>N\<close> and each holding at index \<open>i\<close> the value computed from the
  inputs at index \<open>i\<close>.
\<close>

theorem dpo_loss_result_shape:
  assumes "length pc = N" "length pr = N" "length rc = N" "length rr = N"
  shows "\<exists>losses chosen_rewards rejected_rewards.
           dpo_loss pc pr rc rr beta = Inr (losses, chosen_rewards, rejected_rewards) \<and>
           length losses = N \<and> length chosen_rewards = N \<and> length rejected_rewards = N \<and>
           losses = spec_losses pc pr rc rr beta \<and>
           chosen_rewards = spec_rewards pc rc beta \<and>
           rejected_rewards = spec_rewards pr rr beta"
proof -
  from assms have eq: "length pr = length pc" "length rc = length pc" "length rr = length pc"
    and eq': "length rr = length pr"
    by simp_all
  have "dpo_loss pc pr rc rr beta =
          Inr (spec_losses pc pr rc rr beta, spec_rewards pc rc beta, spec_rewards pr rr beta)"
    using eq eq' by (simp only: dpo_loss_same_size losses_are_spec_losses rewards_are_spec_rewards)
  moreover have "length (spec_losses pc pr rc rr beta) = N"
    using assms by (simp add: spec_losses_def)
  moreover have "length (spec_rewards pc rc beta) = N" "length (spec_rewards pr rr beta) = N"
    using assms by (simp_all add: spec_rewards_def)
  ultimately show ?thesis
    by simp
qed

theorem dpo_loss_result_shape_witness:
  "(\<exists>losses chosen_rewards rejected_rewards.
      dpo_loss [3, 5] [0, 1] [1, 1] [0, 0] 1 = Inr (losses, chosen_rewards, rejected_rewards) \<and>
      length losses = 2 \<and> length chosen_rewards = 2 \<and> length rejected_rewards = 2 \<and>
      losses = [- ln (sigmoid 2), - ln (sigmoid 3)] \<and>
      chosen_rewards = [2, 4] \<and> rejected_rewards = [0, 1]) \<and>
   (\<exists>losses chosen_rewards rejected_rewards.
      dpo_loss [] [] [] [] 1 = Inr (losses, chosen_rewards, rejected_rewards) \<and>
      length losses = 0 \<and> length chosen_rewards = 0 \<and> length rejected_rewards = 0 \<and>
      losses = [] \<and> chosen_rewards = [] \<and> rejected_rewards = [])"
  using dpo_loss_result_shape [of "[3, 5]" 2 "[0, 1]" "[1, 1]" "[0, 0]" 1]
    dpo_loss_result_shape [of "[]" 0 "[]" "[]" "[]" 1]
  by (simp add: spec_losses_def spec_rewards_def logit_at_def upt_rec)

section \<open>Shifting the policy log-probabilities\<close>

lemma hd_map_singleton: "length a = 1 \<Longrightarrow> hd (map f a) = f (hd a)"
  by (cases a) simp_all

lemma tensor_sub_shift_left:
  "tensor_sub (map (\<lambda>x. x + c) a) b =
     (case tensor_sub a b of Inl e \<Rightarrow> Inl e | Inr t \<Rightarrow> Inr (map (\<lambda>x. x + c) t))"
proof -
  have same: "map2 (-) (map (\<lambda>x. x + c) a) b = map (\<lambda>x. x + c) (map2 (-) a b)"
    by (induction a b rule: list_induct2') simp_all
  show ?thesis
    by (simp add: tensor_sub_def same hd_map_singleton o_def algebra_simps)
qed

lemma tensor_sub_shift_both:
  "tensor_sub (map (\<lambda>x. x + c) a) (map (\<lambda>x. x + c) b) = tensor_sub a b"
proof -
  have same: "map2 (-) (map (\<lambda>x. x + c) a) (map (\<lambda>x. x + c) b) = map2 (-) a b"
    by (induction a b rule: list_induct2') simp_all
  show ?thesis
    by (simp add: tensor_sub_def same hd_map_singleton o_def)
qed

lemma scalar_mul_shift:
  "scalar_mul beta (map (\<lambda>x. x + c) t) = map (\<lambda>x. x + beta * c) (scalar_mul beta t)"
  by (simp add: scalar_mul_def o_def algebra_simps)

text \<open>
  Claim C10, amended. In exact real arithmetic, for every constant \<open>c\<close>, adding \<open>c\<close> to
  every element of both policy inputs and leaving the reference inputs as they are leaves
  every loss unchanged and adds \<open>beta * c\<close> to every chosen and every rejected reward; a call
  that raises keeps raising the same error. The claim as the specification states it, for
  the tensors of the program, is refuted in the section on binary32 results.
\<close>

theorem dpo_loss_shift_invariance:
  "dpo_loss (map (\<lambda>x. x + c) pc) (map (\<lambda>x. x + c) pr) rc rr beta =
     (case dpo_loss pc pr rc rr beta of
        Inl e \<Rightarrow> Inl e
      | Inr (losses, chosen_rewards, rejected_rewards) \<Rightarrow>
          Inr (losses,
               map (\<lambda>x. x + beta * c) chosen_rewards,
               map (\<lambda>x. x + beta * c) rejected_rewards))"
proof (cases "tensor_sub pc rc")
  case (Inl e)
  then show ?thesis
    by (simp add: dpo_loss_def tensor_sub_shift_left)
next
  case chosen: (Inr chosen_logratios)
  show ?thesis
  proof (cases "tensor_sub pr rr")
    case (Inl e)
    with chosen show ?thesis
      by (simp add: dpo_loss_def tensor_sub_shift_left)
  next
    case rejected: (Inr rejected_logratios)
    have chosen': "tensor_sub (map (\<lambda>x. x + c) pc) rc = Inr (map (\<lambda>x. x + c) chosen_logratios)"
      using chosen by (simp add: tensor_sub_shift_left)
    have rejected': "tensor_sub (map (\<lambda>x. x + c) pr) rr = Inr (map (\<lambda>x. x + c) rejected_logratios)"
      using rejected by (simp add: tensor_sub_shift_left)
    show ?thesis
    proof (cases "tensor_sub chosen_logratios rejected_logratios")
      case (Inl e)
      with chosen rejected show ?thesis
        by (simp add: dpo_loss_def chosen' rejected' tensor_sub_shift_both)
    next
      case (Inr d)
      with chosen rejected show ?thesis
        by (simp add: dpo_loss_def chosen' rejected' tensor_sub_shift_both
              detach_def scalar_mul_shift Let_def)
    qed
  qed
qed

section \<open>Inputs of different sizes\<close>






section \<open>Rounding to binary32\<close>

lemma rne_of_int: "rne (of_int m) = m"
  by (simp add: rne_def)

lemma exponent32_normal:
  assumes "2 powr of_int e \<le> \<bar>x\<bar>" "\<bar>x\<bar> < 2 powr of_int (e + 1)" "- 126 \<le> e"
  shows "exponent32 x = e"
proof -
  have "(0::real) < 2 powr of_int e"
    by simp
  with assms(1) have "0 < \<bar>x\<bar>"
    by linarith
  then have "\<lfloor>log 2 \<bar>x\<bar>\<rfloor> = e"
    using assms(1,2) by (simp add: floor_log_eq_powr_iff)
  with assms(3) show ?thesis
    by (simp add: exponent32_def)
qed

lemma exponent32_subnormal:
  assumes "x \<noteq> 0" "\<bar>x\<bar> < 2 powr (- 126)"
  shows "exponent32 x = - 126"
proof -
  have "0 < \<bar>x\<bar>" using assms(1) by simp
  then have "log 2 \<bar>x\<bar> < - 126"
    using assms(2) by (simp add: log_less_iff)
  then have "\<lfloor>log 2 \<bar>x\<bar>\<rfloor> \<le> - 126"
    by linarith
  then show ?thesis
    by (simp add: exponent32_def)
qed

lemma quantize32_exact:
  assumes "2 ^ 23 \<le> \<bar>m\<bar>" "\<bar>m\<bar> < 2 ^ 24" "- 149 \<le> k"
  shows "quantize32 (of_int m * 2 powr of_int k) = of_int m * 2 powr of_int k"
proof -
  let ?x = "of_int m * 2 powr of_int k :: real"
  have m0: "m \<noteq> 0" using assms(1) by auto
  have abs: "\<bar>?x\<bar> = of_int \<bar>m\<bar> * 2 powr of_int k"
    by (simp add: abs_mult)
  have "(2::real) powr of_int (k + 23) = 2 ^ 23 * 2 powr of_int k"
    by (simp add: powr_add)
  moreover have "(2::real) ^ 23 \<le> of_int \<bar>m\<bar>"
    using assms(1) by (metis of_int_le_iff of_int_numeral of_int_power)
  ultimately have lo: "2 powr of_int (k + 23) \<le> \<bar>?x\<bar>"
    unfolding abs by (simp add: mult_right_mono)
  have "(2::real) powr of_int (k + 23 + 1) = 2 ^ 24 * 2 powr of_int k"
    by (simp add: powr_add)
  moreover have "of_int \<bar>m\<bar> < (2::real) ^ 24"
    using assms(2) by (metis of_int_less_iff of_int_numeral of_int_power)
  ultimately have hi: "\<bar>?x\<bar> < 2 powr of_int (k + 23 + 1)"
    unfolding abs by (simp add: mult_strict_right_mono)
  have "exponent32 ?x = k + 23"
    using lo hi assms(3) by (intro exponent32_normal) simp_all
  then have "ulp32 ?x = 2 powr of_int k"
    by (simp add: ulp32_def)
  then show ?thesis
    using m0 by (simp add: quantize32_def rne_of_int)
qed


lemma round32_exact:
  assumes "2 ^ 23 \<le> \<bar>m\<bar>" "\<bar>m\<bar> < 2 ^ 24" "- 149 \<le> k" "k \<le> 104"
  shows "round32 (of_int m * 2 powr of_int k) = Finite (of_int m * 2 powr of_int k)"
proof -
  let ?x = "of_int m * 2 powr of_int k :: real"
  have a: "of_int \<bar>m\<bar> \<le> (2::real) ^ 24 - 1"
  proof -
    from assms(2) have "\<bar>m\<bar> \<le> 2 ^ 24 - 1" by simp
    then have "(of_int \<bar>m\<bar> :: real) \<le> of_int (2 ^ 24 - 1)"
      by (simp only: of_int_le_iff)
    then show ?thesis by simp
  qed
  have b: "(2::real) powr of_int k \<le> 2 ^ 104"
    using assms(4) powr_mono [of "of_int k" 104 "2::real"] by simp
  have "of_int \<bar>m\<bar> * 2 powr of_int k \<le> ((2::real) ^ 24 - 1) * 2 ^ 104"
    using mult_mono [OF a b] by simp
  then have "\<bar>?x\<bar> \<le> max32"
    by (simp add: abs_mult max32_def)
  then have "\<not> max32 < ?x" "\<not> ?x < - max32"
    by linarith+
  then show ?thesis
    using assms(1-3) by (simp add: round32_def quantize32_exact)
qed

lemma round32_zero: "round32 0 = Finite 0"
  by (simp add: round32_def quantize32_def max32_def)

lemma quantize32_tiny:
  assumes "0 < y" "y < 2 powr (- 150)"
  shows "quantize32 y = 0"
proof -
  have "(2::real) powr (- 150) < 2 powr (- 126)"
    by simp
  with assms(2) have "\<bar>y\<bar> < 2 powr (- 126)"
    using assms(1) by linarith
  with assms(1) have "exponent32 y = - 126"
    by (intro exponent32_subnormal) simp_all
  then have ulp: "ulp32 y = 2 powr (- 149)"
    by (simp add: ulp32_def)
  define q where "q = y / 2 powr (- 149)"
  have "q < 2 powr (- 150) / 2 powr (- 149)"
    unfolding q_def using assms(2) by (simp add: divide_strict_right_mono)
  also have "\<dots> = 2 powr (- 1)"
    by (simp add: powr_diff [symmetric])
  also have "\<dots> = 1 / 2"
    by (simp add: powr_minus_divide)
  finally have lt: "q < 1 / 2" .
  have ge: "0 \<le> q"
    unfolding q_def using assms(1) by simp
  from lt ge have "\<lfloor>q\<rfloor> = 0"
    by (simp add: floor_eq_iff)
  with lt have "rne q = 0"
    by (simp add: rne_def)
  then show ?thesis
    by (simp add: quantize32_def ulp q_def)
qed

lemma exp_underflow:
  assumes "x \<le> - 150"
  shows "exp x < (2::real) powr (- 150)"
proof -
  have "ln 2 < (1::real)"
    by (rule ln_2_less_1)
  then have "- 150 < - 150 * ln (2::real)"
    by simp
  with assms have "x < - 150 * ln 2"
    by linarith
  then have "exp x < exp (- 150 * ln 2)"
    by simp
  then show ?thesis
    by (simp add: powr_def)
qed

lemma round32_exp_underflow: "x \<le> - 150 \<Longrightarrow> round32 (exp x) = Finite 0"
  using quantize32_tiny [of "exp x"] exp_underflow [of x]
  by (simp add: round32_def max32_def)

lemma quantize32_binade:
  assumes "2 powr of_int e \<le> \<bar>x\<bar>" "\<bar>x\<bar> < 2 powr of_int (e + 1)" "- 126 \<le> e"
  shows "quantize32 x = of_int (rne (x / 2 powr of_int (e - 23))) * 2 powr of_int (e - 23)"
proof -
  have "(0::real) < 2 powr of_int e"
    by simp
  with assms(1) have "x \<noteq> 0"
    by auto
  moreover have "ulp32 x = 2 powr of_int (e - 23)"
    using exponent32_normal [OF assms] by (simp add: ulp32_def)
  ultimately show ?thesis
    by (simp add: quantize32_def)
qed

lemma round32_absorbs_half: "round32 (33554433 / 2) = Finite 16777216"
proof -
  have "quantize32 (33554433 / 2) = 16777216"
    using quantize32_binade [of 24 "33554433 / 2"]
    by (simp add: rne_def)
  then show ?thesis
    by (simp add: round32_def max32_def)
qed


lemma round32_values:
  "round32 1 = Finite 1"
  "round32 (- 1) = Finite (- 1)"
  "round32 200 = Finite 200"
  "round32 300 = Finite 300"
  "round32 (1 / 2) = Finite (1 / 2)"
  "round32 (- (3 / 2)) = Finite (- (3 / 2))"
  "round32 256 = Finite 256"
  "round32 (- 256) = Finite (- 256)"
  "round32 (- 384) = Finite (- 384)"
  "round32 128 = Finite 128"
  "round32 16777216 = Finite 16777216"
  "round32 16777215 = Finite 16777215"
  "round32 4294967040 = Finite 4294967040"
  "round32 4294967296 = Finite 4294967296"
  using round32_exact [of 8388608 "- 23"] round32_exact [of "- 8388608" "- 23"]
    round32_exact [of 13107200 "- 16"] round32_exact [of 9830400 "- 15"]
    round32_exact [of 8388608 "- 24"] round32_exact [of "- 12582912" "- 23"]
    round32_exact [of 8388608 "- 15"] round32_exact [of "- 8388608" "- 15"]
    round32_exact [of "- 12582912" "- 15"] round32_exact [of 8388608 "- 16"]
    round32_exact [of 8388608 1] round32_exact [of 16777215 0]
    round32_exact [of 16777215 8] round32_exact [of 8388608 9]
  by (simp_all add: powr_neg_numeral)

lemmas f32_eval = dpo_loss32_def logits32_def tensor_sub32_def scalar_mul32_def tensor_neg32_def
  detach32_def logsigmoid32_def logsigmoid1_32_def round32_values round32_zero
  round32_exp_underflow round32_absorbs_half

section \<open>Binary32 results\<close>

text \<open>
  Claim C7, as the specification states it: of two inputs that agree except that one has
  the strictly larger logit, that one has the strictly smaller loss. On binary32 tensors it
  fails. The two calls differ in \<open>policy_chosen_logps\<close> only, their logits are \<open>200\<close> and
  \<open>300\<close>, and both losses are \<open>0\<close>: \<open>exp(-200)\<close> and \<open>exp(-300)\<close> are below half of the least
  positive binary32 number and round to \<open>0\<close>.
\<close>

theorem dpo_loss32_saturates_counterexample:
  "logits32 [Finite 200] [Finite 0] [Finite 0] [Finite 0] 1 = Inr [Finite 200] \<and>
   logits32 [Finite 300] [Finite 0] [Finite 0] [Finite 0] 1 = Inr [Finite 300] \<and>
   dpo_loss32 [Finite 200] [Finite 0] [Finite 0] [Finite 0] 1
     = Inr ([Finite 0], [Finite 200], [Finite 0]) \<and>
   dpo_loss32 [Finite 300] [Finite 0] [Finite 0] [Finite 0] 1
     = Inr ([Finite 0], [Finite 300], [Finite 0])"
  by (simp add: f32_eval)

text \<open>
  Claim C10, as the specification states it: adding a constant \<open>c\<close> to every element of
  both policy inputs leaves every loss unchanged and adds \<open>beta * c\<close> to every reward. On
  binary32 tensors it fails. With \<open>c = 2^24 = 16777216\<close> the shifted policy inputs are exact,
  but \<open>2^24 + 1/2\<close> is rounded to \<open>2^24\<close> in the rejected log-ratio: the loss changes from
  \<open>384\<close> to \<open>256\<close>, and the rejected reward goes from \<open>128\<close> to \<open>2^32\<close>, which is not
  \<open>128 + 256 * 2^24\<close>.
\<close>

theorem dpo_loss32_shift_counterexample:
  "dpo_loss32 [Finite 0] [Finite 0] [Finite 1] [Finite (- (1 / 2))] 256
     = Inr ([Finite 384], [Finite (- 256)], [Finite 128]) \<and>
   dpo_loss32 [fadd (Finite 0) (Finite 16777216)] [fadd (Finite 0) (Finite 16777216)]
              [Finite 1] [Finite (- (1 / 2))] 256
     = Inr ([Finite 256], [Finite 4294967040], [Finite 4294967296])"
  by (simp add: f32_eval)

end
